theory Spec2Isabelle
  imports Complex_Main
begin

section \<open>Numbers\<close>

text \<open>
  The source computes with JavaScript numbers (IEEE 754 doubles). A number is modelled
  as a finite real or one of the three non-finite values. Finite arithmetic is exact:
  rounding to 53 bits, overflow to Infinity and the sign of zero are not modelled.
  Comparisons follow the language: every comparison with NaN is false.
\<close>

datatype number = Fin real | PInf | NInf | NaN

fun js_lt :: "number \<Rightarrow> number \<Rightarrow> bool" where
  "js_lt (Fin x) (Fin y) = (x < y)"
| "js_lt (Fin x) PInf = True"
| "js_lt NInf (Fin y) = True"
| "js_lt NInf PInf = True"
| "js_lt _ _ = False"

fun js_le :: "number \<Rightarrow> number \<Rightarrow> bool" where
  "js_le (Fin x) (Fin y) = (x \<le> y)"
| "js_le (Fin x) PInf = True"
| "js_le NInf (Fin y) = True"
| "js_le NInf NInf = True"
| "js_le NInf PInf = True"
| "js_le PInf PInf = True"
| "js_le _ _ = False"

definition js_gt :: "number \<Rightarrow> number \<Rightarrow> bool" where
  "js_gt a b = js_lt b a"

definition js_ge :: "number \<Rightarrow> number \<Rightarrow> bool" where
  "js_ge a b = js_le b a"

fun isFinite :: "number \<Rightarrow> bool" where
  "isFinite (Fin x) = True"
| "isFinite _ = False"

text \<open>\<open>Math.round\<close>: the nearest integer, a tie going up.\<close>

definition Math_round :: "real \<Rightarrow> int" where
  "Math_round x = \<lfloor>x + 1 / 2\<rfloor>"

definition clamp :: "real \<Rightarrow> real \<Rightarrow> real \<Rightarrow> real" where
  "clamp n mn mx = min mx (max mn n)"

section \<open>Parsing the input fields\<close>

text \<open>
  \<open>toNum\<close> deletes every character outside \<open>[0-9.-]\<close> and hands the rest to
  \<open>Number\<close>. On such a string \<open>Number\<close> accepts the empty string (as 0) and an
  optional minus sign followed by \<open>digits\<close>, \<open>digits.\<close>, \<open>digits.digits\<close> or
  \<open>.digits\<close>; anything else is NaN, which \<open>toNum\<close> turns into 0.
\<close>

definition isDigit :: "char \<Rightarrow> bool" where
  "isDigit c = (c \<in> set ''0123456789'')"

definition digitVal :: "char \<Rightarrow> nat" where
  "digitVal c = of_char c - 48"

definition digitsVal :: "string \<Rightarrow> nat" where
  "digitsVal ds = foldl (\<lambda>acc c. 10 * acc + digitVal c) 0 ds"

definition unsignedLiteral :: "string \<Rightarrow> number" where
  "unsignedLiteral s =
     (let ip = takeWhile isDigit s; rest = dropWhile isDigit s
      in case rest of
           [] \<Rightarrow> (if ip = [] then NaN else Fin (real (digitsVal ip)))
         | c # fp \<Rightarrow>
             (if c = CHR ''.'' \<and> list_all isDigit fp \<and> \<not> (ip = [] \<and> fp = [])
              then Fin (real (digitsVal ip) + real (digitsVal fp) / 10 ^ length fp)
              else NaN))"

fun negate :: "number \<Rightarrow> number" where
  "negate (Fin x) = Fin (- x)"
| "negate PInf = NInf"
| "negate NInf = PInf"
| "negate NaN = NaN"

definition Number_of :: "string \<Rightarrow> number" where
  "Number_of s =
     (case s of
        [] \<Rightarrow> Fin 0
      | c # t \<Rightarrow> (if c = CHR ''-'' then negate (unsignedLiteral t) else unsignedLiteral s))"

definition toNum :: "string \<Rightarrow> real" where
  "toNum v =
     (let x = Number_of (filter (\<lambda>c. isDigit c \<or> c = CHR ''.'' \<or> c = CHR ''-'') v)
      in case x of Fin r \<Rightarrow> r | _ \<Rightarrow> 0)"

section \<open>Formatting\<close>

text \<open>
  The texts the source builds with \<open>toLocaleString\<close> and \<open>toFixed\<close> depend on the
  locale; the model keeps which formatter was applied to which number.
\<close>

datatype formatted = Dash | Currency2 real | Fixed number nat | Percent2 real

fun money2 :: "number \<Rightarrow> formatted" where
  "money2 (Fin x) = Currency2 x"
| "money2 _ = Dash"

fun pct :: "number \<Rightarrow> formatted" where
  "pct (Fin x) = Percent2 (x * 100)"
| "pct _ = Dash"

section \<open>The amortized payment\<close>

text \<open>
  \<open>n\<close> is an integer, at least 1, so \<open>Math.pow(1 + r, n)\<close> is the \<open>n\<close>-fold product.
  The parameter \<open>principal\<close> is written \<open>princ\<close>.
\<close>

definition monthlyMortgagePayment :: "real \<Rightarrow> real \<Rightarrow> real \<Rightarrow> real" where
  "monthlyMortgagePayment princ annualRatePct years =
     (let r = (annualRatePct / 100) / 12;
          n = max 1 (Math_round (years * 12))
      in if princ \<le> 0 then 0
         else if r \<le> 0 then princ / of_int n
         else princ * (r * (1 + r) ^ nat n) / ((1 + r) ^ nat n - 1))"

section \<open>The decision engine\<close>

record args =
  netCashFlow :: number
  dscr :: number
  cashOnCash :: number
  breakEvenRent :: number
  effectiveIncome :: number
  grossIncome :: number
  mortgagePI :: number

text \<open>
  A blocking reason and a warning are the source's template strings; the model keeps
  the template and the formatted numbers put into it.
\<close>

datatype reason = CashFlowNegative formatted | DscrBelow formatted formatted

datatype warning = CashOnCashUnder formatted formatted | BreakEvenAboveGross

record decision =
  isGo :: bool
  reasons :: "reason list"
  warnings :: "warning list"
  primarySignals :: "(string \<times> formatted) list"
  nextStep :: string
  dscrMin :: real
  cocMin :: real

definition scoreDecision :: "args \<Rightarrow> decision" where
  "scoreDecision a =
     (let dscrMin = 12 / 10;
          cocMin = 8 / 100;
          reasons =
            (if js_lt (netCashFlow a) (Fin 0)
             then [CashFlowNegative (money2 (netCashFlow a))] else []) @
            (if js_lt (dscr a) (Fin dscrMin)
             then [DscrBelow (Fixed (Fin dscrMin) 2) (Fixed (dscr a) 2)] else []);
          warnings =
            (if js_lt (cashOnCash a) (Fin cocMin)
             then [CashOnCashUnder (Fixed (Fin (cocMin * 100)) 0) (pct (cashOnCash a))] else []) @
            (if js_gt (breakEvenRent a) (grossIncome a) then [BreakEvenAboveGross] else []);
          isGo = (js_ge (netCashFlow a) (Fin 0) \<and> js_ge (dscr a) (Fin dscrMin));
          primarySignals =
            [(''Cash flow (monthly)'', money2 (netCashFlow a)),
             (''DSCR'', if isFinite (dscr a) then Fixed (dscr a) 2 else Dash)];
          nextStep =
            (if isGo
             then ''Next: verify rent comps + taxes/insurance + vacancy; then do full underwriting.''
             else ''Next: adjust price/down payment/rent/expenses until cash flow and DSCR clear the threshold.'')
      in \<lparr>isGo = isGo, reasons = reasons, warnings = warnings,
          primarySignals = primarySignals, nextStep = nextStep,
          dscrMin = dscrMin, cocMin = cocMin\<rparr>)"

section \<open>The metric engine\<close>

text \<open>The input fields of the form: a mode flag and the raw text of every field.\<close>

record inputs =
  section8Mode :: bool
  purchasePrice :: string
  downPct :: string
  ratePct :: string
  termYears :: string
  closingCosts :: string
  monthlyRent :: string
  tenantPortionMonthly :: string
  hapMonthly :: string
  otherIncome :: string
  taxesMonthly :: string
  insuranceMonthly :: string
  hoaMonthly :: string
  utilitiesMonthly :: string
  vacancyPct :: string
  repairsPct :: string
  capexPct :: string
  mgmtPct :: string
  inspectionReserveMonthly :: string

definition computedRent :: "inputs \<Rightarrow> real" where
  "computedRent i =
     (let std = max 0 (toNum (monthlyRent i))
      in if \<not> section8Mode i then std
         else (let tenant = max 0 (toNum (tenantPortionMonthly i));
                   hap = max 0 (toNum (hapMonthly i))
               in tenant + hap))"

text \<open>
  The locals of \<open>result\<close> that are not returned are functions of the input fields,
  under their names in the source.
\<close>

definition down :: "inputs \<Rightarrow> real" where
  "down i = clamp (toNum (downPct i)) 0 100 / 100"

definition rate :: "inputs \<Rightarrow> real" where
  "rate i = clamp (toNum (ratePct i)) 0 100"

definition years :: "inputs \<Rightarrow> real" where
  "years i = max 1 (of_int (Math_round (toNum (termYears i))))"

definition close :: "inputs \<Rightarrow> real" where
  "close i = max 0 (toNum (closingCosts i))"

definition rent :: "inputs \<Rightarrow> real" where
  "rent i = max 0 (computedRent i)"

definition other :: "inputs \<Rightarrow> real" where
  "other i = max 0 (toNum (otherIncome i))"

definition taxes :: "inputs \<Rightarrow> real" where
  "taxes i = max 0 (toNum (taxesMonthly i))"

definition ins :: "inputs \<Rightarrow> real" where
  "ins i = max 0 (toNum (insuranceMonthly i))"

definition hoa :: "inputs \<Rightarrow> real" where
  "hoa i = max 0 (toNum (hoaMonthly i))"

definition utils :: "inputs \<Rightarrow> real" where
  "utils i = max 0 (toNum (utilitiesMonthly i))"

definition vacancy :: "inputs \<Rightarrow> real" where
  "vacancy i = clamp (toNum (vacancyPct i)) 0 80 / 100"

definition repairs :: "inputs \<Rightarrow> real" where
  "repairs i = clamp (toNum (repairsPct i)) 0 80 / 100"

definition capex :: "inputs \<Rightarrow> real" where
  "capex i = clamp (toNum (capexPct i)) 0 80 / 100"

definition mgmt :: "inputs \<Rightarrow> real" where
  "mgmt i = clamp (toNum (mgmtPct i)) 0 30 / 100"

definition s8Reserve :: "inputs \<Rightarrow> real" where
  "s8Reserve i = (if section8Mode i then max 0 (toNum (inspectionReserveMonthly i)) else 0)"

definition effectiveRent :: "inputs \<Rightarrow> real" where
  "effectiveRent i = rent i * (1 - vacancy i)"

definition coeff :: "inputs \<Rightarrow> real" where
  "coeff i = (1 - vacancy i) - (repairs i + capex i + mgmt i)"

text \<open>
  The returned object. The fields that can hold a sentinel (NaN or Infinity) are
  numbers; the others are finite, being sums, products and guarded quotients of parsed
  fields. Seven field names are also parameters of \<open>scoreDecision\<close>; from here on the
  parameters are written \<open>args.netCashFlow\<close>, \<open>args.dscr\<close> and so on.
\<close>

record result =
  price :: real
  loan :: real
  downPayment :: real
  cashInvested :: real
  mortgagePI :: real
  grossIncome :: real
  effectiveIncome :: real
  fixedCostsNoDebt :: real
  percentCosts :: real
  totalExpenses :: real
  noiMonthly :: real
  netCashFlow :: real
  capRate :: number
  cashOnCash :: number
  dscr :: number
  breakEvenRent :: number
  decision :: decision

definition result :: "inputs \<Rightarrow> result" where
  "result i =
     (let price = max 0 (toNum (purchasePrice i));
          downPayment = price * down i;
          loan = max 0 (price - downPayment);
          mortgagePI = monthlyMortgagePayment loan (rate i) (years i);
          grossIncome = rent i + other i;
          effectiveIncome = effectiveRent i + other i;
          percentCosts = rent i * (repairs i + capex i + mgmt i);
          fixedCostsNoDebt = taxes i + ins i + hoa i + utils i + s8Reserve i;
          totalExpenses = fixedCostsNoDebt + percentCosts + mortgagePI;
          noiMonthly = effectiveIncome - (fixedCostsNoDebt + percentCosts);
          netCashFlow = noiMonthly - mortgagePI;
          capRate = (if price > 0 then Fin ((noiMonthly * 12) / price) else NaN);
          cashInvested = downPayment + close i;
          cashOnCash = (if cashInvested > 0 then Fin ((netCashFlow * 12) / cashInvested) else NaN);
          dscr = (if mortgagePI > 0 then Fin (noiMonthly / mortgagePI)
                  else (if noiMonthly > 0 then PInf else NaN));
          breakEvenRent =
            (if coeff i \<noteq> 0 then Fin ((fixedCostsNoDebt + mortgagePI - other i) / coeff i)
             else PInf);
          decision =
            scoreDecision
              \<lparr>args.netCashFlow = Fin netCashFlow,
               args.dscr = dscr,
               args.cashOnCash = cashOnCash,
               args.breakEvenRent = breakEvenRent,
               args.effectiveIncome = Fin effectiveIncome,
               args.grossIncome = Fin grossIncome,
               args.mortgagePI = Fin mortgagePI\<rparr>
      in \<lparr>price = price, loan = loan, downPayment = downPayment,
          cashInvested = cashInvested, mortgagePI = mortgagePI,
          grossIncome = grossIncome, effectiveIncome = effectiveIncome,
          fixedCostsNoDebt = fixedCostsNoDebt, percentCosts = percentCosts,
          totalExpenses = totalExpenses, noiMonthly = noiMonthly,
          netCashFlow = netCashFlow, capRate = capRate, cashOnCash = cashOnCash,
          dscr = dscr, breakEvenRent = breakEvenRent, decision = decision\<rparr>)"

section \<open>Example inputs\<close>

text \<open>
  The initial state of the form, the form with every field cleared, and variations of
  the initial state used below.
\<close>

definition defaults :: inputs where
  "defaults =
     \<lparr>section8Mode = False, purchasePrice = ''500000'', downPct = ''25'', ratePct = ''6.75'',
      termYears = ''30'', closingCosts = ''0'', monthlyRent = ''4000'',
      tenantPortionMonthly = ''800'', hapMonthly = ''3200'', otherIncome = ''0'',
      taxesMonthly = ''520'', insuranceMonthly = ''140'', hoaMonthly = ''0'',
      utilitiesMonthly = ''0'', vacancyPct = ''5'', repairsPct = ''5'', capexPct = ''5'',
      mgmtPct = ''8'', inspectionReserveMonthly = ''0''\<rparr>"

definition blank :: inputs where
  "blank =
     \<lparr>section8Mode = False, purchasePrice = '''', downPct = '''', ratePct = '''',
      termYears = '''', closingCosts = '''', monthlyRent = '''',
      tenantPortionMonthly = '''', hapMonthly = '''', otherIncome = '''',
      taxesMonthly = '''', insuranceMonthly = '''', hoaMonthly = '''',
      utilitiesMonthly = '''', vacancyPct = '''', repairsPct = '''', capexPct = '''',
      mgmtPct = '''', inspectionReserveMonthly = ''''\<rparr>"

definition halfVacant :: inputs where
  "halfVacant = defaults\<lparr>purchasePrice := ''0'', monthlyRent := ''100'', vacancyPct := ''50'',
     repairsPct := ''50'', capexPct := ''0'', mgmtPct := ''0''\<rparr>"





definition subsidized :: inputs where
  "subsidized = defaults\<lparr>section8Mode := True\<rparr>"

definition negativeTenant :: inputs where
  "negativeTenant = defaults\<lparr>section8Mode := True, purchasePrice := ''0'',
     tenantPortionMonthly := ''-100'', hapMonthly := ''500''\<rparr>"

definition overRange :: inputs where
  "overRange = defaults\<lparr>purchasePrice := ''0'', downPct := ''150'', vacancyPct := ''-10''\<rparr>"

section \<open>Auxiliary facts\<close>

text \<open>Each field of the returned object, in terms of the locals and the earlier fields.\<close>

lemmas parse_defs = toNum_def Number_of_def unsignedLiteral_def isDigit_def digitVal_def
  digitsVal_def

lemmas local_defs = down_def rate_def years_def close_def rent_def other_def taxes_def ins_def
  hoa_def utils_def vacancy_def repairs_def capex_def mgmt_def s8Reserve_def effectiveRent_def
  coeff_def computedRent_def

lemma result_percentCosts: "percentCosts (result i) = rent i * (repairs i + capex i + mgmt i)"
  by (simp add: result_def Let_def)

lemma result_noiMonthly:
  "noiMonthly (result i) =
     (effectiveRent i + other i) - (fixedCostsNoDebt (result i) + percentCosts (result i))"
  by (simp add: result_def Let_def)

lemma result_dscr:
  "dscr (result i) =
     (if mortgagePI (result i) > 0 then Fin (noiMonthly (result i) / mortgagePI (result i))
      else if noiMonthly (result i) > 0 then PInf else NaN)"
  by (simp add: result_def Let_def)

lemma result_price: "price (result i) = max 0 (toNum (purchasePrice i))"
  by (simp add: result_def Let_def)
lemma result_downPayment: "downPayment (result i) = price (result i) * down i"
  by (simp add: result_def Let_def)
lemma result_loan: "loan (result i) = max 0 (price (result i) - downPayment (result i))"
  by (simp add: result_def Let_def)
lemma result_mortgagePI:
  "mortgagePI (result i) = monthlyMortgagePayment (loan (result i)) (rate i) (years i)"
  by (simp add: result_def Let_def)
lemma result_grossIncome: "grossIncome (result i) = rent i + other i"
  by (simp add: result_def Let_def)
lemma result_effectiveIncome: "effectiveIncome (result i) = effectiveRent i + other i"
  by (simp add: result_def Let_def)
lemma result_fixedCostsNoDebt:
  "fixedCostsNoDebt (result i) = taxes i + ins i + hoa i + utils i + s8Reserve i"
  by (simp add: result_def Let_def)
lemma result_totalExpenses:
  "totalExpenses (result i) =
     fixedCostsNoDebt (result i) + percentCosts (result i) + mortgagePI (result i)"
  by (simp add: result_def Let_def)
lemma result_netCashFlow: "netCashFlow (result i) = noiMonthly (result i) - mortgagePI (result i)"
  by (simp add: result_def Let_def)
lemma result_capRate:
  "capRate (result i) =
     (if price (result i) > 0 then Fin ((noiMonthly (result i) * 12) / price (result i)) else NaN)"
  by (simp add: result_def Let_def)
lemma result_cashInvested: "cashInvested (result i) = downPayment (result i) + close i"
  by (simp add: result_def Let_def)
lemma result_cashOnCash:
  "cashOnCash (result i) =
     (if cashInvested (result i) > 0
      then Fin ((netCashFlow (result i) * 12) / cashInvested (result i)) else NaN)"
  by (simp add: result_def Let_def)
lemma result_breakEvenRent:
  "breakEvenRent (result i) =
     (if coeff i \<noteq> 0
      then Fin ((fixedCostsNoDebt (result i) + mortgagePI (result i) - other i) / coeff i)
      else PInf)"
  by (simp add: result_def Let_def)
lemma result_decision:
  "decision (result i) =
     scoreDecision
              \<lparr>args.netCashFlow = Fin (netCashFlow (result i)),
               args.dscr = dscr (result i),
               args.cashOnCash = cashOnCash (result i),
               args.breakEvenRent = breakEvenRent (result i),
               args.effectiveIncome = Fin (effectiveIncome (result i)),
               args.grossIncome = Fin (grossIncome (result i)),
               args.mortgagePI = Fin (mortgagePI (result i))\<rparr>"
  by (simp add: result_def Let_def)

lemmas result_fields = result_price result_downPayment result_loan result_mortgagePI
  result_grossIncome result_effectiveIncome result_percentCosts result_fixedCostsNoDebt
  result_totalExpenses result_noiMonthly result_netCashFlow result_capRate result_cashInvested
  result_cashOnCash result_dscr result_breakEvenRent result_decision

text \<open>The returned object depends on the input only through the locals.\<close>

lemma result_cong:
  assumes "toNum (purchasePrice i) = toNum (purchasePrice j)" "down i = down j"
    "rate i = rate j" "years i = years j"
    "close i = close j" "rent i = rent j" "other i = other j" "taxes i = taxes j" "ins i = ins j"
    "hoa i = hoa j" "utils i = utils j" "vacancy i = vacancy j" "repairs i = repairs j"
    "capex i = capex j" "mgmt i = mgmt j" "s8Reserve i = s8Reserve j"
  shows "result i = result j"
  unfolding result_def effectiveRent_def coeff_def by (simp only: assms)

lemma toNum_empty: "toNum [] = 0" by (simp add: parse_defs)

lemmas eval_defs = result_fields local_defs parse_defs clamp_def monthlyMortgagePayment_def
  Math_round_def Let_def

text \<open>The divisors of the payment formula are not zero.\<close>

lemma Math_round_periods: "1 \<le> max 1 (Math_round x)" by simp

lemma annuity_denominator_pos:
  fixes r :: real and n :: int
  assumes "0 < r" "1 \<le> n"
  shows "0 < (1 + r) ^ nat n - 1"
proof -
  have "1 < (1 + r) ^ nat n" using assms by (intro one_less_power) auto
  then show ?thesis by simp
qed

lemma clamp_bounds: "mn \<le> mx \<Longrightarrow> mn \<le> clamp n mn mx \<and> clamp n mn mx \<le> mx"
  by (simp add: clamp_def)






text \<open>
  The blocking reasons and the verdict come from two separate pairs of comparisons;
  they agree unless one of the two numbers is NaN.
\<close>

lemma reasons_empty_iff:
  "reasons (scoreDecision a) = []
     \<longleftrightarrow> \<not> js_lt (args.netCashFlow a) (Fin 0) \<and> \<not> js_lt (args.dscr a) (Fin (12 / 10))"
  by (simp add: scoreDecision_def Let_def)

lemma js_ge_iff_not_lt: "a \<noteq> NaN \<Longrightarrow> b \<noteq> NaN \<Longrightarrow> js_ge a b \<longleftrightarrow> \<not> js_lt a b"
  by (cases a; cases b) (auto simp add: js_ge_def)

lemma isGo_no_reasons: "isGo (scoreDecision a) \<Longrightarrow> reasons (scoreDecision a) = []"
  by (cases "args.netCashFlow a"; cases "args.dscr a")
    (auto simp add: scoreDecision_def Let_def js_ge_def)

lemma no_reasons_isGo:
  "args.netCashFlow a \<noteq> NaN \<Longrightarrow> args.dscr a \<noteq> NaN \<Longrightarrow> reasons (scoreDecision a) = []
     \<Longrightarrow> isGo (scoreDecision a)"
  by (cases "args.netCashFlow a"; cases "args.dscr a")
    (auto simp add: scoreDecision_def Let_def js_ge_def split: if_splits)

section \<open>The verdict\<close>

text \<open>
  Claim C1. For every argument of the decision engine, \<open>isGo\<close> is true exactly when the net
  monthly cash flow is at least 0 and the DSCR is at least 1.20, both in the language's
  comparison. At the boundary, cash flow exactly 0 and DSCR exactly 1.20, \<open>isGo\<close> is true.
\<close>

theorem isGo_iff_thresholds:
  "isGo (scoreDecision a) = (js_ge (args.netCashFlow a) (Fin 0) \<and> js_ge (args.dscr a) (Fin (12 / 10)))
   \<and> (args.netCashFlow a = Fin 0 \<and> args.dscr a = Fin (12 / 10) \<longrightarrow> isGo (scoreDecision a))"
  by (simp add: scoreDecision_def Let_def js_ge_def)

theorem isGo_iff_thresholds_witness:
  "isGo (scoreDecision
     \<lparr>args.netCashFlow = Fin 0, args.dscr = Fin (12 / 10), args.cashOnCash = NaN,
      args.breakEvenRent = PInf, args.effectiveIncome = Fin 0, args.grossIncome = Fin 0,
      args.mortgagePI = Fin 0\<rparr>)"
  using isGo_iff_thresholds
    [of "\<lparr>args.netCashFlow = Fin 0, args.dscr = Fin (12 / 10), args.cashOnCash = NaN,
      args.breakEvenRent = PInf, args.effectiveIncome = Fin 0, args.grossIncome = Fin 0,
      args.mortgagePI = Fin 0\<rparr>"]
  by (simp add: js_ge_def)

text \<open>
  Claim C2 says that \<open>isGo\<close> is true exactly when there is no blocking reason, and that an
  undefined DSCR leaves \<open>isGo\<close> true when the cash flow is not negative. On the cleared
  form the cash flow is 0 and the DSCR is NaN: the engine adds no blocking reason, yet
  \<open>isGo\<close> is false, since \<open>NaN >= 1.2\<close> is false just as \<open>NaN < 1.2\<close> is.
\<close>

theorem cleared_form_no_go_without_reason:
  "netCashFlow (result blank) = 0 \<and> dscr (result blank) = NaN \<and>
   isGo (decision (result blank)) = False \<and> reasons (decision (result blank)) = []"
  by (simp add: result_fields blank_def local_defs toNum_empty clamp_def
        monthlyMortgagePayment_def scoreDecision_def js_ge_def)

section \<open>The metrics\<close>

text \<open>
  Claim C3 as stated, variable costs computed on the rent after vacancy, fails: with rent
  100, vacancy 50% and repairs 50% the variable costs are 50, where the rent after
  vacancy times the fractions is 25.
\<close>

theorem percentCosts_not_on_effectiveRent:
  "percentCosts (result halfVacant) = 50
   \<and> effectiveRent halfVacant * (repairs halfVacant + capex halfVacant + mgmt halfVacant) = 25
   \<and> percentCosts (result halfVacant)
       \<noteq> effectiveRent halfVacant * (repairs halfVacant + capex halfVacant + mgmt halfVacant)"
  by (simp add: halfVacant_def defaults_def eval_defs)

text \<open>
  Claim C3, amended. For every input, the variable costs are the rent used in the
  calculation, before the vacancy deduction (the monthly rent, or tenant portion plus
  HAP, floored at 0), times the sum of the repairs, capex and management fractions; the
  rent after vacancy is that rent times \<open>1 - vacancy\<close> and does not enter them.
\<close>

theorem percentCosts_on_gross_rent:
  "percentCosts (result i) = rent i * (repairs i + capex i + mgmt i)
   \<and> rent i = max 0 (computedRent i)
   \<and> effectiveRent i = rent i * (1 - vacancy i)"
  by (simp add: result_percentCosts rent_def effectiveRent_def)

text \<open>
  Claim C4. For every principal \<open>P\<close>, annual rate percent \<open>R\<close> and term \<open>Y\<close>, with
  \<open>n = max(1, round(Y * 12))\<close> and \<open>r = (R / 100) / 12\<close>: the payment is 0 if \<open>P \<le> 0\<close>;
  otherwise \<open>P / n\<close> if \<open>r \<le> 0\<close>, where \<open>n\<close> is at least 1; otherwise the annuity
  formula, whose divisor is not zero.
\<close>

theorem monthlyMortgagePayment_cases:
  "(let n = max 1 (Math_round (Y * 12)); r = (R / 100) / 12
    in 1 \<le> n
       \<and> (P \<le> 0 \<longrightarrow> monthlyMortgagePayment P R Y = 0)
       \<and> (0 < P \<and> r \<le> 0 \<longrightarrow> monthlyMortgagePayment P R Y = P / of_int n)
       \<and> (0 < P \<and> 0 < r \<longrightarrow>
            (1 + r) ^ nat n - 1 \<noteq> 0
            \<and> monthlyMortgagePayment P R Y = P * r * (1 + r) ^ nat n / ((1 + r) ^ nat n - 1)))"
proof -
  define n where "n = max 1 (Math_round (Y * 12))"
  define r where "r = (R / 100) / 12"
  have n1: "1 \<le> n" by (simp add: n_def)
  have a: "P \<le> 0 \<longrightarrow> monthlyMortgagePayment P R Y = 0"
    by (simp add: monthlyMortgagePayment_def Let_def)
  have b: "0 < P \<and> r \<le> 0 \<longrightarrow> monthlyMortgagePayment P R Y = P / of_int n"
    by (auto simp add: monthlyMortgagePayment_def Let_def n_def r_def)
  have c: "0 < P \<and> 0 < r \<longrightarrow> (1 + r) ^ nat n - 1 \<noteq> 0
            \<and> monthlyMortgagePayment P R Y = P * r * (1 + r) ^ nat n / ((1 + r) ^ nat n - 1)"
  proof (intro impI conjI)
    assume h: "0 < P \<and> 0 < r"
    have "0 < (1 + r) ^ nat n - 1"
      using h n1 by (intro annuity_denominator_pos) simp_all
    then show "(1 + r) ^ nat n - 1 \<noteq> 0" by simp
    from h have "\<not> P \<le> 0" "\<not> (R / 100) / 12 \<le> 0" by (simp_all add: r_def)
    then show "monthlyMortgagePayment P R Y = P * r * (1 + r) ^ nat n / ((1 + r) ^ nat n - 1)"
      by (simp add: monthlyMortgagePayment_def Let_def n_def r_def)
  qed
  from n1 a b c show ?thesis by (simp add: Let_def n_def r_def)
qed

theorem monthlyMortgagePayment_cases_witness:
  "monthlyMortgagePayment 0 5 30 = 0 \<and> monthlyMortgagePayment 1200 0 1 = 100
   \<and> monthlyMortgagePayment 63 1200 (1 / 2) = 64"
  using monthlyMortgagePayment_cases [of 30 5 0] monthlyMortgagePayment_cases [of 1 0 1200]
    monthlyMortgagePayment_cases [of "1 / 2" 1200 63]
  by (simp add: Let_def Math_round_def)

text \<open>
  Claim C5. For every input, with \<open>coeff\<close> the vacancy-adjusted share of rent left after
  the three cost fractions: the break-even rent is fixed costs plus debt service minus
  other income, divided by \<open>coeff\<close>, if \<open>coeff\<close> is not 0, and positive infinity if it is.
\<close>

theorem breakEvenRent_linear_solve:
  "coeff i = (1 - vacancy i) - (repairs i + capex i + mgmt i)
   \<and> breakEvenRent (result i) =
       (if coeff i \<noteq> 0
        then Fin ((fixedCostsNoDebt (result i) + mortgagePI (result i) - other i) / coeff i)
        else PInf)"
  by (simp add: result_breakEvenRent coeff_def)




text \<open>
  Claim C7. For every input, the DSCR is NOI divided by the monthly debt service when the
  debt service is positive; otherwise it is positive infinity if NOI is positive and NaN
  if not. The engine is a total function: no input makes it fail.
\<close>

theorem dscr_sentinels:
  "dscr (result i) =
     (if mortgagePI (result i) > 0 then Fin (noiMonthly (result i) / mortgagePI (result i))
      else if noiMonthly (result i) > 0 then PInf else NaN)"
  by (simp add: result_dscr)

section \<open>The two modes\<close>

text \<open>
  Claim C8 as stated fails for a negative portion: each portion is floored at 0 before
  the two are added. With tenant portion -100 and HAP 500 the subsidized rent is 500,
  the Standard rent for 400 is 400.
\<close>

theorem negative_portion_breaks_equivalence:
  "section8Mode negativeTenant \<and> toNum (inspectionReserveMonthly negativeTenant) = 0
   \<and> toNum ''400'' = toNum (tenantPortionMonthly negativeTenant) + toNum (hapMonthly negativeTenant)
   \<and> grossIncome (result negativeTenant) = 500
   \<and> grossIncome (result (negativeTenant\<lparr>section8Mode := False, monthlyRent := ''400''\<rparr>)) = 400
   \<and> result (negativeTenant\<lparr>section8Mode := False, monthlyRent := ''400''\<rparr>) \<noteq> result negativeTenant"
proof -
  have a: "grossIncome (result negativeTenant) = 500"
    by (simp add: negativeTenant_def defaults_def eval_defs)
  have b: "grossIncome (result (negativeTenant\<lparr>section8Mode := False, monthlyRent := ''400''\<rparr>)) = 400"
    by (simp add: negativeTenant_def defaults_def eval_defs)
  have c: "result (negativeTenant\<lparr>section8Mode := False, monthlyRent := ''400''\<rparr>) \<noteq> result negativeTenant"
  proof
    assume "result (negativeTenant\<lparr>section8Mode := False, monthlyRent := ''400''\<rparr>) = result negativeTenant"
    then have "grossIncome (result (negativeTenant\<lparr>section8Mode := False, monthlyRent := ''400''\<rparr>))
      = grossIncome (result negativeTenant)" by simp
    with a b show False by simp
  qed
  have d: "section8Mode negativeTenant \<and> toNum (inspectionReserveMonthly negativeTenant) = 0
   \<and> toNum ''400'' = toNum (tenantPortionMonthly negativeTenant) + toNum (hapMonthly negativeTenant)"
    by (simp add: negativeTenant_def defaults_def parse_defs)
  from a b c d show ?thesis by blast
qed

text \<open>
  Claim C8, amended. For every subsidized-mode input with inspection reserve 0 and with
  tenant portion and HAP not negative, the Standard-mode run with a monthly rent that
  parses to their sum, and every other field the same, returns the same object: all
  metrics and the verdict.
\<close>

theorem subsidized_equals_standard:
  assumes "section8Mode i" and "toNum (inspectionReserveMonthly i) = 0"
    and "0 \<le> toNum (tenantPortionMonthly i)" and "0 \<le> toNum (hapMonthly i)"
    and "toNum s = toNum (tenantPortionMonthly i) + toNum (hapMonthly i)"
  shows "result (i\<lparr>section8Mode := False, monthlyRent := s\<rparr>) = result i"
  using assms by (intro result_cong) (simp_all add: local_defs)

theorem subsidized_equals_standard_witness:
  "result (subsidized\<lparr>section8Mode := False, monthlyRent := ''4000''\<rparr>) = result subsidized"
proof -
  have "toNum ''0'' = 0" "toNum ''800'' = 800" "toNum ''3200'' = 3200" "toNum ''4000'' = 4000"
    by (simp_all add: parse_defs)
  then show ?thesis
    using subsidized_equals_standard [where i = subsidized and s = "''4000''"]
    by (simp add: subsidized_def defaults_def)
qed

text \<open>
  Claim C9. For every input the fractions used in the arithmetic are the clamped
  percentages over 100: the down payment fraction is min(100, max(0, input)) / 100, the
  vacancy, repairs and capex fractions min(80, max(0, input)) / 100, the management
  fraction min(30, max(0, input)) / 100, and these are what the down payment, the
  effective income and the variable costs are computed from. So the down payment fraction
  lies in [0, 1], vacancy, repairs and capex in [0, 0.8], management in [0, 0.3]; a down
  payment percent of 100 or more gives 1, a vacancy percent of 0 or less gives 0; and the
  returned object depends on the five percent fields only through their clamped values.
\<close>

theorem percentages_clamped_before_use:
  "down i = min 100 (max 0 (toNum (downPct i))) / 100
   \<and> vacancy i = min 80 (max 0 (toNum (vacancyPct i))) / 100
   \<and> repairs i = min 80 (max 0 (toNum (repairsPct i))) / 100
   \<and> capex i = min 80 (max 0 (toNum (capexPct i))) / 100
   \<and> mgmt i = min 30 (max 0 (toNum (mgmtPct i))) / 100
   \<and> downPayment (result i) = price (result i) * (min 100 (max 0 (toNum (downPct i))) / 100)
   \<and> effectiveIncome (result i)
       = rent i * (1 - min 80 (max 0 (toNum (vacancyPct i))) / 100) + other i
   \<and> percentCosts (result i)
       = rent i * (min 80 (max 0 (toNum (repairsPct i))) / 100
                   + min 80 (max 0 (toNum (capexPct i))) / 100
                   + min 30 (max 0 (toNum (mgmtPct i))) / 100)
   \<and> 0 \<le> down i \<and> down i \<le> 1
   \<and> 0 \<le> vacancy i \<and> vacancy i \<le> 8 / 10
   \<and> 0 \<le> repairs i \<and> repairs i \<le> 8 / 10
   \<and> 0 \<le> capex i \<and> capex i \<le> 8 / 10
   \<and> 0 \<le> mgmt i \<and> mgmt i \<le> 3 / 10
   \<and> (100 \<le> toNum (downPct i) \<longrightarrow> down i = 1)
   \<and> (toNum (vacancyPct i) \<le> 0 \<longrightarrow> vacancy i = 0)
   \<and> (clamp (toNum d) 0 100 = clamp (toNum (downPct i)) 0 100
      \<and> clamp (toNum v) 0 80 = clamp (toNum (vacancyPct i)) 0 80
      \<and> clamp (toNum r) 0 80 = clamp (toNum (repairsPct i)) 0 80
      \<and> clamp (toNum c) 0 80 = clamp (toNum (capexPct i)) 0 80
      \<and> clamp (toNum m) 0 30 = clamp (toNum (mgmtPct i)) 0 30
      \<longrightarrow> result (i\<lparr>downPct := d, vacancyPct := v, repairsPct := r, capexPct := c, mgmtPct := m\<rparr>)
          = result i)"
proof -
  have fractions: "down i = min 100 (max 0 (toNum (downPct i))) / 100
    \<and> vacancy i = min 80 (max 0 (toNum (vacancyPct i))) / 100
    \<and> repairs i = min 80 (max 0 (toNum (repairsPct i))) / 100
    \<and> capex i = min 80 (max 0 (toNum (capexPct i))) / 100
    \<and> mgmt i = min 30 (max 0 (toNum (mgmtPct i))) / 100"
    by (simp add: down_def vacancy_def repairs_def capex_def mgmt_def clamp_def)
  have used: "downPayment (result i) = price (result i) * (min 100 (max 0 (toNum (downPct i))) / 100)
    \<and> effectiveIncome (result i)
       = rent i * (1 - min 80 (max 0 (toNum (vacancyPct i))) / 100) + other i
    \<and> percentCosts (result i)
       = rent i * (min 80 (max 0 (toNum (repairsPct i))) / 100
                   + min 80 (max 0 (toNum (capexPct i))) / 100
                   + min 30 (max 0 (toNum (mgmtPct i))) / 100)"
    by (simp add: result_downPayment result_effectiveIncome result_percentCosts effectiveRent_def
          down_def vacancy_def repairs_def capex_def mgmt_def clamp_def)
  have range: "0 \<le> down i \<and> down i \<le> 1 \<and> 0 \<le> vacancy i \<and> vacancy i \<le> 8 / 10
    \<and> 0 \<le> repairs i \<and> repairs i \<le> 8 / 10 \<and> 0 \<le> capex i \<and> capex i \<le> 8 / 10
    \<and> 0 \<le> mgmt i \<and> mgmt i \<le> 3 / 10"
    using clamp_bounds [of 0 100 "toNum (downPct i)"] clamp_bounds [of 0 80 "toNum (vacancyPct i)"]
      clamp_bounds [of 0 80 "toNum (repairsPct i)"] clamp_bounds [of 0 80 "toNum (capexPct i)"]
      clamp_bounds [of 0 30 "toNum (mgmtPct i)"]
    by (simp add: down_def vacancy_def repairs_def capex_def mgmt_def)
  have top: "100 \<le> toNum (downPct i) \<longrightarrow> down i = 1"
    by (simp add: down_def clamp_def)
  have bottom: "toNum (vacancyPct i) \<le> 0 \<longrightarrow> vacancy i = 0"
    by (simp add: vacancy_def clamp_def)
  have only_clamped: "clamp (toNum d) 0 100 = clamp (toNum (downPct i)) 0 100
      \<and> clamp (toNum v) 0 80 = clamp (toNum (vacancyPct i)) 0 80
      \<and> clamp (toNum r) 0 80 = clamp (toNum (repairsPct i)) 0 80
      \<and> clamp (toNum c) 0 80 = clamp (toNum (capexPct i)) 0 80
      \<and> clamp (toNum m) 0 30 = clamp (toNum (mgmtPct i)) 0 30
      \<longrightarrow> result (i\<lparr>downPct := d, vacancyPct := v, repairsPct := r, capexPct := c, mgmtPct := m\<rparr>)
          = result i"
    by (intro impI result_cong) (simp_all add: local_defs)
  from fractions used range top bottom only_clamped show ?thesis by blast
qed

theorem percentages_clamped_before_use_witness:
  "down overRange = 1 \<and> vacancy overRange = 0 \<and> repairs overRange = 5 / 100
   \<and> capex overRange = 5 / 100 \<and> mgmt overRange = 8 / 100
   \<and> result (overRange\<lparr>downPct := ''100'', vacancyPct := ''0'', repairsPct := ''5'',
        capexPct := ''5'', mgmtPct := ''8''\<rparr>) = result overRange"
proof -
  have "toNum ''150'' = 150" "toNum ''-10'' = - 10" "toNum ''100'' = 100" "toNum ''0'' = 0"
    "toNum ''5'' = 5" "toNum ''8'' = 8"
    by (simp_all add: parse_defs)
  then show ?thesis
    using percentages_clamped_before_use
      [where i = overRange and d = "''100''" and v = "''0''" and r = "''5''" and c = "''5''"
         and m = "''8''"]
    by (simp add: overRange_def defaults_def clamp_def)
qed

text \<open>
  Claim C10. In Standard mode the tenant portion, the HAP and the inspection reserve do
  not influence the returned object (metrics and verdict); in subsidized mode the monthly
  rent does not.
\<close>

theorem unused_mode_fields_do_not_interfere:
  "(\<not> section8Mode i \<longrightarrow>
      result (i\<lparr>tenantPortionMonthly := t, hapMonthly := h, inspectionReserveMonthly := r\<rparr>)
        = result i)
   \<and> (section8Mode i \<longrightarrow> result (i\<lparr>monthlyRent := m\<rparr>) = result i)"
proof (intro conjI impI)
  assume "\<not> section8Mode i"
  then show "result (i\<lparr>tenantPortionMonthly := t, hapMonthly := h, inspectionReserveMonthly := r\<rparr>)
        = result i"
    by (intro result_cong) (simp_all add: local_defs)
next
  assume "section8Mode i"
  then show "result (i\<lparr>monthlyRent := m\<rparr>) = result i"
    by (intro result_cong) (simp_all add: local_defs)
qed

theorem unused_mode_fields_do_not_interfere_witness:
  "result (defaults\<lparr>tenantPortionMonthly := ''1'', hapMonthly := ''2'', inspectionReserveMonthly := ''3''\<rparr>)
     = result defaults
   \<and> result (subsidized\<lparr>monthlyRent := ''9999''\<rparr>) = result subsidized"
  using unused_mode_fields_do_not_interfere
      [where i = defaults and t = "''1''" and h = "''2''" and r = "''3''"]
    unused_mode_fields_do_not_interfere [where i = subsidized and m = "''9999''"]
  by (simp add: subsidized_def defaults_def)

end
